theory Spec2Isabelle
  imports Main
begin

section \<open>Data model\<close>

text \<open>
  The fragment commands of the editor extension (\<^verbatim>\<open>packages/vscode/src/fragmentcommands.ts\<close>)
  work on the data of the core library: templates, fragments, specification files and the
  project. Strings are character lists; positions are pairs of line and column numbers.
  Back-references that would make the object graph cyclic (fragment to file, file to project)
  are kept as handles that carry exactly what the commands read through them.
\<close>

type_synonym Position = "int \<times> int"

record PromptTemplate =
  t_id :: string
  t_title :: string
  t_description :: "string option"
  t_group :: string

record FileReference =
  ref_filename :: string

text \<open>
  What the commands read through \<^verbatim>\<open>fragment.file\<close>: the file name, and through
  \<^verbatim>\<open>fragment.file.project\<close> the templates of the project the fragment was parsed in.
\<close>

record FileHandle =
  filename :: string
  project_templates :: "PromptTemplate list"

datatype Fragment = Fragment
  (fullId: string)
  (title: string)
  (startPos: Position)
  (endPos: Position)
  (file_of: FileHandle)
  (parent: "Fragment option")
  (references: "FileReference list")

record SpecFile =
  file_filename :: string
  roots :: "Fragment list"
  fragments :: "Fragment list"

record Project =
  rootFiles :: "SpecFile list"
  fragmentByFullId :: "string \<rightharpoonup> Fragment"

text \<open>The argument types \<^verbatim>\<open>Fragment | string\<close> and \<^verbatim>\<open>Fragment | string | vscode.Uri\<close>;
  an absent argument (\<^verbatim>\<open>undefined\<close>) is \<open>None\<close> of the option type.\<close>

datatype FragmentRef = Frag Fragment | Str string

datatype SpecArg = Ref FragmentRef | Uri string

record AIRequestOptions =
  opt_fragment :: Fragment
  opt_template :: "PromptTemplate option"
  opt_label :: string

datatype Action = Create | Discussions

datatype QuickPickItemKind = Separator

record TemplateQuickPickItem =
  item_label :: string
  item_description :: "string option"
  item_kind :: "QuickPickItemKind option"
  item_template :: "PromptTemplate option"
  item_action :: "Action option"

record FilePickItem =
  pick_label :: string
  pick_file :: "SpecFile option"

record TextDocument =
  fsPath :: string
  text_of :: string
  isDirty :: bool

datatype Error = TypeError | FileNotFound

datatype 'a Result = Ok 'a | Throw Error

text \<open>
  Every call of a collaborator (editor, file system, request controller) is recorded, in
  order, in the state's log.
\<close>

datatype Effect =
    ShowErrorMessage string
  | ShowInformationMessage string
  | ShowQuickPickFiles "FilePickItem list" string
  | ShowQuickPickTemplates "TemplateQuickPickItem list" string
  | ShowInputBox string
  | ExecuteCommand string
  | OpenExternal string
  | ParseWorkspace
  | ParseDocument string
  | SaveAllTextDocuments
  | ReadFile string
  | WriteFile string string
  | CancelAiRequest
  | RequestAI AIRequestOptions
  | ShowTextDocument string
  | SetSelection Position
  | RevealRange Position
  | Uncaught Error

section \<open>The core library's helpers\<close>

text \<open>
  Modelled from the spec: \<^verbatim>\<open>rootFragment\<close> of the core library is not among the sources.
  It walks the parent links to the unique ancestor with no parent. The parent chain of a
  value of \<^typ>\<open>Fragment\<close> is finite, so the walk ends.
\<close>

fun rootFragment :: "Fragment \<Rightarrow> Fragment" where
  "rootFragment (Fragment i t s e f None r) = Fragment i t s e f None r"
| "rootFragment (Fragment i t s e f (Some p) r) = rootFragment p"

text \<open>The commands also pass \<^verbatim>\<open>undefined\<close> to it and test the result for truthiness.\<close>

definition rootFragment_opt :: "Fragment option \<Rightarrow> Fragment option" where
  "rootFragment_opt fo = map_option rootFragment fo"

definition lower_ascii :: "char \<Rightarrow> char" where
  "lower_ascii c =
     (let n = (of_char c :: nat) in if 65 \<le> n \<and> n \<le> 90 then char_of (n + 32) else c)"

text \<open>The test \<^verbatim>\<open>/\.gpspec\.md$/i\<close>: the string ends with the suffix, letters compared
  without case.\<close>

definition is_gpspec :: "string \<Rightarrow> bool" where
  "is_gpspec s =
     (10 \<le> length s \<and> map lower_ascii (drop (length s - 10) s) = ''.gpspec.md'')"

text \<open>
  Modelled from the spec: \<^verbatim>\<open>Project.resolveFragment\<close> of the core library is not among
  the sources. An absent identifier is not found; a path of a specification document gives
  the document's first declared root fragment; a fragment id string or a fragment value is
  looked up in \<open>fragmentByFullId\<close> and is not found when the id is stale.
\<close>

fun resolveFragment :: "Project \<Rightarrow> FragmentRef option \<Rightarrow> Fragment option" where
  "resolveFragment p None = None"
| "resolveFragment p (Some (Frag f)) = fragmentByFullId p (fullId f)"
| "resolveFragment p (Some (Str s)) =
     (if is_gpspec s then
        (case find (\<lambda>d. file_filename d = s) (rootFiles p) of
           None \<Rightarrow> None
         | Some d \<Rightarrow> (case roots d of [] \<Rightarrow> None | r # _ \<Rightarrow> Some r))
      else fragmentByFullId p s)"

text \<open>
  Modelled from the spec: \<^verbatim>\<open>Project.getTemplate\<close> is not among the sources; template ids
  are unique, and the lookup is by id.
\<close>

definition getTemplate :: "PromptTemplate list \<Rightarrow> string \<Rightarrow> PromptTemplate option" where
  "getTemplate ts i = find (\<lambda>t. t_id t = i) ts"

text \<open>
  Modelled from the spec: \<^verbatim>\<open>templateGroup\<close> and \<^verbatim>\<open>groupBy\<close> of the core library are not
  among the sources. Templates are grouped by their group attribute; the groups come in
  first-seen order and each group keeps the order of the input.
\<close>

definition templateGroup :: "PromptTemplate \<Rightarrow> string" where
  "templateGroup t = t_group t"

fun push_group :: "(string \<times> 'a list) list \<Rightarrow> string \<Rightarrow> 'a \<Rightarrow> (string \<times> 'a list) list" where
  "push_group [] k x = [(k, [x])]"
| "push_group ((k', ys) # r) k x =
     (if k' = k then (k', ys @ [x]) # r else (k', ys) # push_group r k x)"

definition groupBy :: "'a list \<Rightarrow> ('a \<Rightarrow> string) \<Rightarrow> (string \<times> 'a list) list" where
  "groupBy xs key = foldl (\<lambda>r item. push_group r (key item) item) [] xs"

section \<open>The template picker's items\<close>

definition separator_item :: "string \<Rightarrow> TemplateQuickPickItem" where
  "separator_item cat =
     \<lparr>item_label = cat, item_description = None, item_kind = Some Separator,
      item_template = None, item_action = None\<rparr>"

definition template_item :: "PromptTemplate \<Rightarrow> TemplateQuickPickItem" where
  "template_item template =
     \<lparr>item_label = t_title template,
      item_description =
        Some (t_id template @ '' '' @ (case t_description template of None \<Rightarrow> [] | Some d \<Rightarrow> d)),
      item_kind = None, item_template = Some template, item_action = None\<rparr>"

definition create_item :: TemplateQuickPickItem where
  "create_item =
     \<lparr>item_label = ''Create a new GPTool script...'',
      item_description = Some ''Create a new gptool script in the current workspace.'',
      item_kind = None, item_template = None, item_action = Some Create\<rparr>"

definition discussions_item :: TemplateQuickPickItem where
  "discussions_item =
     \<lparr>item_label = ''View GPTools Discussions...'',
      item_description = Some ''Open the Discussions tab in the GPTools GitHub.'',
      item_kind = None, item_template = None, item_action = Some Discussions\<rparr>"

text \<open>The loop \<^verbatim>\<open>for (const cat in cats)\<close>: a separator, then the group's templates.\<close>

fun group_items :: "(string \<times> PromptTemplate list) list \<Rightarrow> TemplateQuickPickItem list" where
  "group_items [] = []"
| "group_items ((cat, ts) # cats) = separator_item cat # map template_item ts @ group_items cats"

definition templatesToQuickPickItems :: "PromptTemplate list \<Rightarrow> TemplateQuickPickItem list" where
  "templatesToQuickPickItems templates =
     group_items (groupBy templates templateGroup)
       @ [separator_item [], create_item, discussions_item]"

section \<open>Inserting a refinement\<close>

text \<open>\<^verbatim>\<open>content.split("\n")\<close>: the empty text is one empty line.\<close>

fun split_lf :: "string \<Rightarrow> string list" where
  "split_lf [] = [[]]"
| "split_lf (c # cs) =
     (if c = CHR 0x0A then [] # split_lf cs
      else (case split_lf cs of [] \<Rightarrow> [[c]] | l # ls \<Rightarrow> (c # l) # ls))"

text \<open>\<^verbatim>\<open>lines.join("\n")\<close>.\<close>

fun join_lf :: "string list \<Rightarrow> string" where
  "join_lf [] = []"
| "join_lf [l] = l"
| "join_lf (l # ls) = l @ CHR 0x0A # join_lf ls"

text \<open>
  \<^verbatim>\<open>lines.splice(start, 0, item)\<close>: a negative start counts from the end, and the start is
  clamped to the range of the array.
\<close>

definition splice_insert :: "'a list \<Rightarrow> int \<Rightarrow> 'a \<Rightarrow> 'a list" where
  "splice_insert xs start item =
     (let len = int (length xs);
          k = nat (if start < 0 then max (len + start) 0 else min start len)
      in take k xs @ [item] @ drop k xs)"

text \<open>Lines 164 to 167 of \<^verbatim>\<open>fragmentRefine\<close>: the new content of the fragment's file.\<close>

definition refineContent :: "string \<Rightarrow> Fragment \<Rightarrow> string \<Rightarrow> string" where
  "refineContent content fragment refinement =
     join_lf (splice_insert (split_lf content) (fst (endPos fragment)) (''-   '' @ refinement))"

section \<open>The extension state and its collaborators\<close>

text \<open>
  Modelled from the spec: the request controller (\<^verbatim>\<open>state.ts\<close>) is not among the sources.
  It is idle, or runs a request, or holds the completed request; \<^verbatim>\<open>state.aiRequest\<close> is
  the record of the running or most recently completed request.
\<close>

datatype RequestState = Idle | Running AIRequestOptions | Completed AIRequestOptions

record State =
  project :: Project
  controller :: RequestState
  textDocuments :: "TextDocument list"
  visibleTextEditors :: "TextDocument list"
  files :: "string \<rightharpoonup> string"
  effects :: "Effect list"

text \<open>
  The collaborators whose answers the commands only consume: the user's choice in a picker
  (the index of the chosen item, \<open>None\<close> when the picker is dismissed), the text typed in
  the input box, the parser, and the applicability of templates to a fragment.
\<close>

record Env =
  showQuickPick_files :: "FilePickItem list \<Rightarrow> nat option"
  showQuickPick_templates :: "TemplateQuickPickItem list \<Rightarrow> nat option"
  showInputBox :: "string option"
  parseWorkspace :: "(string \<rightharpoonup> string) \<Rightarrow> Project"
  parseDocument :: "TextDocument \<Rightarrow> Project option"
  applicableTemplates :: "Fragment \<Rightarrow> PromptTemplate list"

definition log :: "Effect \<Rightarrow> State \<Rightarrow> State" where
  "log e st = st\<lparr>effects := effects st @ [e]\<rparr>"

text \<open>A picker returns one of its items or nothing.\<close>

definition pick_at :: "'a list \<Rightarrow> nat option \<Rightarrow> 'a option" where
  "pick_at items c =
     (case c of None \<Rightarrow> None | Some i \<Rightarrow> if i < length items then Some (items ! i) else None)"

definition aiRequest :: "State \<Rightarrow> AIRequestOptions option" where
  "aiRequest st =
     (case controller st of Idle \<Rightarrow> None | Running r \<Rightarrow> Some r | Completed r \<Rightarrow> Some r)"

text \<open>
  Modelled from the spec: \<^verbatim>\<open>cancel\<close> aborts a running request and leaves the controller
  idle; it does nothing when no request runs.
\<close>

definition cancelAiRequest :: "State \<Rightarrow> State" where
  "cancelAiRequest st =
     log CancelAiRequest
       (st\<lparr>controller := (case controller st of Running r \<Rightarrow> Idle | c \<Rightarrow> c)\<rparr>)"

text \<open>
  Modelled from the spec: \<^verbatim>\<open>start\<close> produces a new request record that replaces any
  previous one, and the controller runs it.
\<close>

definition requestAI :: "AIRequestOptions \<Rightarrow> State \<Rightarrow> State" where
  "requestAI options st = log (RequestAI options) (st\<lparr>controller := Running options\<rparr>)"

text \<open>
  Modelled from the spec: \<^verbatim>\<open>saveAllTextDocuments\<close> (\<^verbatim>\<open>fs.ts\<close>) is not among the sources.
  It persists every unsaved open document.
\<close>

definition saveAllTextDocuments :: "State \<Rightarrow> State" where
  "saveAllTextDocuments st =
     log SaveAllTextDocuments
       (st\<lparr>files := foldl (\<lambda>fs d. if isDirty d then fs(fsPath d \<mapsto> text_of d) else fs)
                        (files st) (textDocuments st),
           textDocuments := map (\<lambda>d. d\<lparr>isDirty := False\<rparr>) (textDocuments st),
           visibleTextEditors := map (\<lambda>d. d\<lparr>isDirty := False\<rparr>) (visibleTextEditors st)\<rparr>)"

text \<open>The last segment of a path (\<^verbatim>\<open>Utils.basename\<close>).\<close>

definition basename :: "string \<Rightarrow> string" where
  "basename p = rev (takeWhile (\<lambda>c. c \<noteq> CHR ''/'') (rev p))"

section \<open>The commands\<close>

text \<open>The message of the prompt command when no fragment was found.\<close>

definition not_found_message :: string where
  "not_found_message =
     ''GPTools - sorry, we could not find where to apply the tool. ''
       @ ''Please try to launch GPTools from the editor.''"

definition checkSaved :: "Env \<Rightarrow> State \<Rightarrow> bool \<times> State" where
  "checkSaved env st =
     (if list_ex isDirty (textDocuments st) then
        (False,
         log (ShowErrorMessage
               ''GPTool cancelled. Please save all files before running GPTools.'') st)
      else (True, log ParseWorkspace (st\<lparr>project := parseWorkspace env (files st)\<rparr>)))"

definition pickTemplate ::
  "Env \<Rightarrow> Fragment \<Rightarrow> (PromptTemplate \<Rightarrow> bool) option \<Rightarrow> State \<Rightarrow> PromptTemplate option \<times> State"
where
  "pickTemplate env fragment filter_opt st =
     (let flt = (case filter_opt of None \<Rightarrow> (\<lambda>p. True) | Some f \<Rightarrow> f);
          templates = filter flt (applicableTemplates env fragment);
          items = templatesToQuickPickItems templates;
          st1 = log (ShowQuickPickTemplates items
                      (''Pick a GPTool to apply to '' @ title fragment)) st
      in case pick_at items (showQuickPick_templates env items) of
           None \<Rightarrow> (None, st1)
         | Some picked \<Rightarrow>
             (if item_action picked = Some Create then
                (None, log (ExecuteCommand ''coarch.prompt.create'') st1)
              else if item_action picked = Some Discussions then
                (None, log (OpenExternal ''https://github.com/microsoft/gptools/discussions'') st1)
              else (item_template picked, st1)))"

definition fragmentExecute :: "Fragment option \<Rightarrow> string \<Rightarrow> string \<Rightarrow> State \<Rightarrow> State" where
  "fragmentExecute fragment label templateId st =
     (case fragment of
        None \<Rightarrow> st
      | Some f \<Rightarrow>
          (let fragment' = (case fragmentByFullId (project st) (fullId f) of
                              Some g \<Rightarrow> g | None \<Rightarrow> f);
               template = getTemplate (project_templates (file_of fragment')) templateId;
               st1 = cancelAiRequest st
           in requestAI \<lparr>opt_fragment = fragment', opt_template = template,
                          opt_label = label\<rparr> st1))"

text \<open>The files of the project whose roots reference the path.\<close>

definition referencing :: "Project \<Rightarrow> string \<Rightarrow> SpecFile list" where
  "referencing p frag =
     filter (\<lambda>f. list_ex (\<lambda>r. list_ex (\<lambda>ref. ref_filename ref = frag) (references r)) (roots f))
       (rootFiles p)"

definition file_pick_items :: "Project \<Rightarrow> string \<Rightarrow> FilePickItem list" where
  "file_pick_items p frag =
     map (\<lambda>f. \<lparr>pick_label = basename (file_filename f), pick_file = Some f\<rparr>) (referencing p frag)
       @ [\<lparr>pick_label = ''Create new GPSpec file...'', pick_file = None\<rparr>]"

text \<open>
  \<^verbatim>\<open>prj?.rootFiles?.[0].fragments?.[0]\<close>: nothing when the parse gave no project or the
  first file has no fragment; reading \<^verbatim>\<open>fragments\<close> of a missing first file throws.
\<close>

definition first_fragment :: "Project option \<Rightarrow> Fragment option Result" where
  "first_fragment prj =
     (case prj of
        None \<Rightarrow> Ok None
      | Some p \<Rightarrow>
          (case rootFiles p of
             [] \<Rightarrow> Throw TypeError
           | f # _ \<Rightarrow> (case fragments f of [] \<Rightarrow> Ok None | x # _ \<Rightarrow> Ok (Some x))))"

text \<open>
  The start of \<^verbatim>\<open>resolveSpec\<close> (lines 83 to 88): an absent argument becomes the id of the
  fragment of the request on record, and a URI becomes its path.
\<close>

definition next_logic :: "State \<Rightarrow> SpecArg option \<Rightarrow> FragmentRef option" where
  "next_logic st frag0 =
     (let frag1 = (case (frag0, aiRequest st) of
                     (None, Some req) \<Rightarrow> Some (Ref (Str (fullId (opt_fragment req))))
                   | _ \<Rightarrow> frag0)
      in case frag1 of
           None \<Rightarrow> None
         | Some (Uri p) \<Rightarrow> Some (Str p)
         | Some (Ref r) \<Rightarrow> Some r)"

text \<open>
  The branch of \<^verbatim>\<open>resolveSpec\<close> for a string that is not the path of a specification
  document (lines 94 to 137, with the final \<^verbatim>\<open>rootFragment\<close> of line 142).
\<close>

definition resolve_referenced :: "Env \<Rightarrow> string \<Rightarrow> State \<Rightarrow> Fragment option Result \<times> State" where
  "resolve_referenced env s st =
     (let gpspecs = referencing (project st) s;
          items = file_pick_items (project st) s;
          st1 = (if gpspecs \<noteq> [] then log (ShowQuickPickFiles items ''Select GPSpec file'') st
                 else st);
          pick = (if gpspecs \<noteq> [] then pick_at items (showQuickPick_files env items)
                  else Some \<lparr>pick_label = [], pick_file = None\<rparr>)
      in case pick of
           None \<Rightarrow> (Ok None, st1)
         | Some pk \<Rightarrow>
             (case pick_file pk of
                Some f \<Rightarrow>
                  (Ok (rootFragment_opt (case roots f of [] \<Rightarrow> None | r # _ \<Rightarrow> Some r)), st1)
              | None \<Rightarrow>
                  (case find (\<lambda>d. fsPath d = s) (visibleTextEditors st1) of
                     None \<Rightarrow> (Ok (rootFragment_opt None), st1)
                   | Some document \<Rightarrow>
                       (let st2 = log (ParseDocument (fsPath document)) st1
                        in case first_fragment (parseDocument env document) of
                             Throw e \<Rightarrow> (Throw e, st2)
                           | Ok fragment \<Rightarrow> (Ok (rootFragment_opt fragment), st2)))))"

definition resolveSpec :: "Env \<Rightarrow> SpecArg option \<Rightarrow> State \<Rightarrow> Fragment option Result \<times> State" where
  "resolveSpec env frag0 st =
     (let frag = next_logic st frag0
      in case frag of
           Some (Str s) \<Rightarrow>
             (if \<not> is_gpspec s then resolve_referenced env s st
              else (Ok (rootFragment_opt (resolveFragment (project st) frag)), st))
         | _ \<Rightarrow> (Ok (rootFragment_opt (resolveFragment (project st) frag)), st))"

definition fragmentPrompt ::
  "Env \<Rightarrow> SpecArg option \<Rightarrow> PromptTemplate option \<Rightarrow> State \<Rightarrow> State"
where
  "fragmentPrompt env frag template st =
     (case checkSaved env st of
        (False, st1) \<Rightarrow> st1
      | (True, st1) \<Rightarrow>
          (let st2 = cancelAiRequest st1
           in case resolveSpec env frag st2 of
                (Throw e, st3) \<Rightarrow> log (Uncaught e) st3
              | (Ok None, st3) \<Rightarrow>
                  log (ShowErrorMessage not_found_message) st3
              | (Ok (Some fragment), st3) \<Rightarrow>
                  (case template of
                     Some t \<Rightarrow> fragmentExecute (Some fragment) (t_title t) (t_id t) st3
                   | None \<Rightarrow>
                       (case pickTemplate env fragment None st3 of
                          (None, st4) \<Rightarrow> st4
                        | (Some t, st4) \<Rightarrow>
                            fragmentExecute (Some fragment) (t_title t) (t_id t) st4))))"

definition fragmentRefine :: "Env \<Rightarrow> State \<Rightarrow> State" where
  "fragmentRefine env st =
     (let st1 = cancelAiRequest st
      in case resolveSpec env None st1 of
           (Throw e, st2) \<Rightarrow> log (Uncaught e) st2
         | (Ok None, st2) \<Rightarrow> st2
         | (Ok (Some fragment), st2) \<Rightarrow>
             (case aiRequest st2 of
                None \<Rightarrow> log (Uncaught TypeError) st2
              | Some req \<Rightarrow>
                  (let template = opt_template req;
                       st3 = log (ShowInputBox ''What do you want to add to your spec?'') st2
                   in case showInputBox env of
                        None \<Rightarrow> st3
                      | Some refinement \<Rightarrow>
                          (if refinement = [] then st3
                           else
                             (let st4 = saveAllTextDocuments st3;
                                  uri = filename (file_of fragment)
                              in case files st4 uri of
                                   None \<Rightarrow> log (Uncaught FileNotFound) (log (ReadFile uri) st4)
                                 | Some content \<Rightarrow>
                                     (let st5 = log (ReadFile uri) st4;
                                          content' = refineContent content fragment refinement;
                                          st6 = log (WriteFile uri content')
                                                  (st5\<lparr>files := (files st5)(uri \<mapsto> content')\<rparr>);
                                          st7 = saveAllTextDocuments st6;
                                          st8 = log (ShowInformationMessage
                                                      (''GPTools - Added refinement in '' @ basename uri
                                                         @ ''. Please wait for the tool to start again.''))
                                                  st7
                                      in fragmentPrompt env (Some (Ref (Frag fragment))) template st8))))))"

definition fragmentNavigate :: "FragmentRef \<Rightarrow> State \<Rightarrow> State" where
  "fragmentNavigate fragment st =
     (case resolveFragment (project st) (Some fragment) of
        None \<Rightarrow> st
      | Some f \<Rightarrow>
          log (RevealRange (startPos f))
            (log (SetSelection (startPos f))
               (log (ShowTextDocument (filename (file_of f))) st)))"

section \<open>Requests in flight along a log\<close>

text \<open>
  Replaying a log: a cancellation leaves no request in flight, a dispatch adds one. The
  predicate \<open>never_two\<close> holds when at no point of the replay more than one is in flight.
\<close>

fun in_flight_step :: "nat \<Rightarrow> Effect \<Rightarrow> nat" where
  "in_flight_step n CancelAiRequest = 0"
| "in_flight_step n (RequestAI options) = Suc n"
| "in_flight_step n e = n"

fun never_two :: "nat \<Rightarrow> Effect list \<Rightarrow> bool" where
  "never_two n [] = (n \<le> 1)"
| "never_two n (e # es) = (n \<le> 1 \<and> never_two (in_flight_step n e) es)"

definition in_flight :: "RequestState \<Rightarrow> nat" where
  "in_flight c = (case c of Running r \<Rightarrow> 1 | _ \<Rightarrow> 0)"

text \<open>What a command appended to the log of the state it started in.\<close>

definition new_effects :: "State \<Rightarrow> State \<Rightarrow> Effect list" where
  "new_effects st st' = drop (length (effects st)) (effects st')"

text \<open>Kinds of log entries: the dispatch of a request, the write of a file, and what the
  resolution of a fragment may show or parse.\<close>

fun is_dispatch :: "Effect \<Rightarrow> bool" where
  "is_dispatch (RequestAI options) = True"
| "is_dispatch e = False"

fun is_write :: "Effect \<Rightarrow> bool" where
  "is_write (WriteFile p c) = True"
| "is_write SaveAllTextDocuments = True"
| "is_write e = False"

fun is_file_picker :: "Effect \<Rightarrow> bool" where
  "is_file_picker (ShowQuickPickFiles items t) = True"
| "is_file_picker e = False"

fun resolve_effect :: "Effect \<Rightarrow> bool" where
  "resolve_effect (ShowQuickPickFiles items t) = True"
| "resolve_effect (ParseDocument p) = True"
| "resolve_effect e = False"

text \<open>
  A command's part of the log is in order when it dispatches nothing, or dispatches once, as
  its last step, directly after a cancellation.
\<close>

definition cancel_then_dispatch :: "Effect list \<Rightarrow> bool" where
  "cancel_then_dispatch es =
     (list_all (\<lambda>e. \<not> is_dispatch e) es
      \<or> (2 \<le> length es \<and> list_all (\<lambda>e. \<not> is_dispatch e) (butlast es)
          \<and> is_dispatch (last es) \<and> last (butlast es) = CancelAiRequest))"

section \<open>An example project\<close>

text \<open>
  One specification file \<^verbatim>\<open>a.gpspec.md\<close> of five lines with a root fragment that references
  \<^verbatim>\<open>util.ts\<close> and has one sub-fragment; one template; a fragment of an earlier parse
  whose id the project no longer knows.
\<close>

definition doc5 :: string where
  "doc5 = ''l0'' @ [CHR 0x0A] @ ''l1'' @ [CHR 0x0A] @ ''l2'' @ [CHR 0x0A] @ ''l3''
            @ [CHR 0x0A] @ ''l4''"

definition tmpl1 :: PromptTemplate where
  "tmpl1 = \<lparr>t_id = ''gen'', t_title = ''Generate'', t_description = None, t_group = ''core''\<rparr>"

definition handleA :: FileHandle where
  "handleA = \<lparr>filename = ''a.gpspec.md'', project_templates = [tmpl1]\<rparr>"

definition rootA :: Fragment where
  "rootA = Fragment ''a.gpspec.md'' ''Spec A'' (0, 0) (3, 0) handleA None
             [\<lparr>ref_filename = ''util.ts''\<rparr>]"

definition childA :: Fragment where
  "childA = Fragment ''a.gpspec.md:1'' ''Part'' (1, 0) (2, 0) handleA (Some rootA) []"

definition staleF :: Fragment where
  "staleF = Fragment ''a.gpspec.md:9'' ''Gone'' (7, 0) (8, 0) handleA None []"

definition fileA :: SpecFile where
  "fileA = \<lparr>file_filename = ''a.gpspec.md'', roots = [rootA], fragments = [rootA, childA]\<rparr>"

definition projA :: Project where
  "projA = \<lparr>rootFiles = [fileA],
            fragmentByFullId = [''a.gpspec.md'' \<mapsto> rootA, ''a.gpspec.md:1'' \<mapsto> childA]\<rparr>"

definition reqA :: AIRequestOptions where
  "reqA = \<lparr>opt_fragment = rootA, opt_template = Some tmpl1, opt_label = ''Generate''\<rparr>"

text \<open>A user who answers the file picker with \<open>fileChoice\<close>, picks the second item of the
  template picker and types \<open>note\<close>.\<close>

definition envA :: "nat option \<Rightarrow> string option \<Rightarrow> Env" where
  "envA fileChoice note =
     \<lparr>showQuickPick_files = (\<lambda>items. fileChoice),
      showQuickPick_templates = (\<lambda>items. Some 1),
      showInputBox = note,
      parseWorkspace = (\<lambda>fs. projA),
      parseDocument = (\<lambda>d. None),
      applicableTemplates = (\<lambda>f. [tmpl1])\<rparr>"

definition stA :: "RequestState \<Rightarrow> TextDocument list \<Rightarrow> State" where
  "stA c docs =
     \<lparr>project = projA, controller = c, textDocuments = docs, visibleTextEditors = [],
      files = [''a.gpspec.md'' \<mapsto> doc5], effects = []\<rparr>"

section \<open>The picker always offers the two escape actions\<close>

lemma group_items_no_action: "list_all (\<lambda>i. item_action i = None) (group_items cats)"
  by (induction cats rule: group_items.induct)
     (auto simp: separator_item_def template_item_def list_all_iff)

lemma push_group_members:
  "(\<Union>a\<in>set (push_group r k x). set (snd a)) = insert x (\<Union>a\<in>set r. set (snd a))"
  by (induction r k x rule: push_group.induct) auto

lemma foldl_push_group_members:
  "(\<Union>a\<in>set (foldl (\<lambda>r item. push_group r (key item) item) acc xs). set (snd a))
     = (\<Union>a\<in>set acc. set (snd a)) \<union> set xs"
proof (induction xs arbitrary: acc)
  case Nil
  show ?case by simp
next
  case (Cons x xs)
  show ?case
    unfolding foldl_Cons Cons.IH push_group_members by auto
qed

lemma groupBy_set: "set (concat (map snd (groupBy xs key))) = set xs"
  using foldl_push_group_members [of key "[]" xs] by (simp add: groupBy_def)

lemma group_items_templates:
  "set (List.map_filter item_template (group_items cats)) = set (concat (map snd cats))"
  by (induction cats rule: group_items.induct)
     (auto simp: List.map_filter_def separator_item_def template_item_def)

text \<open>
  Claim C6. For every list of templates, the empty one included, the items of the picker
  are not empty and end with the two escape actions, "create a new script" and "view the
  discussions"; everything before them carries no action, and the items of all the
  templates are among it.
\<close>

theorem templatesToQuickPickItems_ends_with_actions:
  "templatesToQuickPickItems templates \<noteq> []
   \<and> (\<exists>pre. templatesToQuickPickItems templates = pre @ [create_item, discussions_item]
        \<and> list_all (\<lambda>i. item_action i = None) pre
        \<and> set (List.map_filter item_template pre) = set templates)
   \<and> item_action create_item = Some Create \<and> item_template create_item = None
   \<and> item_action discussions_item = Some Discussions \<and> item_template discussions_item = None"
proof -
  let ?g = "group_items (groupBy templates templateGroup)"
  let ?pre = "?g @ [separator_item []]"
  have e: "templatesToQuickPickItems templates = ?pre @ [create_item, discussions_item]"
    by (simp add: templatesToQuickPickItems_def)
  have a: "list_all (\<lambda>i. item_action i = None) ?pre"
    using group_items_no_action [of "groupBy templates templateGroup"]
    by (simp add: separator_item_def)
  have t: "set (List.map_filter item_template ?pre) = set templates"
    using group_items_templates [of "groupBy templates templateGroup"]
      groupBy_set [of templates templateGroup]
    by (simp add: List.map_filter_def separator_item_def)
  have ne: "templatesToQuickPickItems templates \<noteq> []" using e by simp
  show ?thesis using e a t ne
    by (simp add: create_item_def discussions_item_def)
qed

section \<open>The refinement line\<close>

lemma split_lf_not_Nil: "split_lf s \<noteq> []"
  by (induction s) (auto split: list.splits)

lemma split_lf_single: "CHR 0x0A \<notin> set l \<Longrightarrow> split_lf l = [l]"
  by (induction l) auto

lemma split_lf_append: "CHR 0x0A \<notin> set l \<Longrightarrow> split_lf (l @ CHR 0x0A # r) = l # split_lf r"
  by (induction l) auto

lemma split_lf_lines: "list_all (\<lambda>l. CHR 0x0A \<notin> set l) (split_lf s)"
  by (induction s) (auto split: list.splits)

lemma split_join:
  "xs \<noteq> [] \<Longrightarrow> list_all (\<lambda>l. CHR 0x0A \<notin> set l) xs \<Longrightarrow> split_lf (join_lf xs) = xs"
  by (induction xs rule: join_lf.induct) (auto simp: split_lf_single split_lf_append)

lemma splice_insert_in_range:
  "0 \<le> start \<Longrightarrow> start \<le> int (length xs) \<Longrightarrow>
   splice_insert xs start item = take (nat start) xs @ [item] @ drop (nat start) xs"
  by (simp add: splice_insert_def Let_def min_def)

text \<open>
  Claim C4, as the code has it. For a fragment whose end line lies within the document and
  a note without a line feed, the refined document read as lines is the old one with exactly
  one new line at the index of the fragment's end line; the text of the new line is a dash,
  three spaces and the note. All other lines are unchanged.
\<close>

theorem refineContent_inserts_line:
  assumes "0 \<le> fst (endPos fragment)"
    and "fst (endPos fragment) \<le> int (length (split_lf content))"
    and "CHR 0x0A \<notin> set note"
  shows "split_lf (refineContent content fragment note)
           = take (nat (fst (endPos fragment))) (split_lf content)
             @ [''-   '' @ note]
             @ drop (nat (fst (endPos fragment))) (split_lf content)
         \<and> length (split_lf (refineContent content fragment note))
           = Suc (length (split_lf content))"
proof -
  let ?k = "nat (fst (endPos fragment))"
  let ?ls = "take ?k (split_lf content) @ [''-   '' @ note] @ drop ?k (split_lf content)"
  have "list_all (\<lambda>l. CHR 0x0A \<notin> set l) (take ?k (split_lf content))"
    and "list_all (\<lambda>l. CHR 0x0A \<notin> set l) (drop ?k (split_lf content))"
    using split_lf_lines [of content]
    by (auto simp: list_all_iff dest: in_set_takeD in_set_dropD)
  then have "list_all (\<lambda>l. CHR 0x0A \<notin> set l) ?ls"
    using assms(3) by simp
  then have "split_lf (join_lf ?ls) = ?ls"
    by (intro split_join) simp_all
  then have eq: "split_lf (refineContent content fragment note) = ?ls"
    using assms(1,2) by (simp add: refineContent_def splice_insert_in_range)
  have "length ?ls = Suc (length (split_lf content))"
    by simp
  with eq show ?thesis by simp
qed

text \<open>The five-line document, the end position (3, 0) and the note "do X".\<close>

theorem refineContent_inserts_line_witness:
  "split_lf doc5 = [''l0'', ''l1'', ''l2'', ''l3'', ''l4'']
   \<and> endPos rootA = (3, 0)
   \<and> split_lf (refineContent doc5 rootA ''do X'')
       = [''l0'', ''l1'', ''l2'', ''-   do X'', ''l3'', ''l4'']"
  using refineContent_inserts_line [of rootA doc5 "''do X''"]
  by (simp add: doc5_def rootA_def)

text \<open>The new line is not the text \<^verbatim>\<open>- do X\<close> of the claim: three spaces follow the dash.\<close>

theorem refineContent_list_item_counterexample:
  "length (split_lf doc5) = 5 \<and> endPos rootA = (3, 0)
   \<and> split_lf (refineContent doc5 rootA ''do X'') ! 3 \<noteq> ''- do X''"
  by (simp add: doc5_def rootA_def refineContent_def splice_insert_def)

section \<open>What the helpers add to the log\<close>

lemma new_effects_log [simp]: "new_effects st (log e st) = [e]"
  by (simp add: new_effects_def log_def)

lemma resolve_referenced_rest: "(snd (resolve_referenced env s st))\<lparr>effects := effects st\<rparr> = st"
  by (simp add: resolve_referenced_def Let_def log_def
      split: option.splits Result.splits)

lemma resolve_referenced_effects:
  "effects (snd (resolve_referenced env s st))
     = effects st @ new_effects st (snd (resolve_referenced env s st))
   \<and> list_all resolve_effect (new_effects st (snd (resolve_referenced env s st)))"
  by (simp add: resolve_referenced_def Let_def log_def new_effects_def
      split: option.splits Result.splits)

lemma resolveSpec_rest: "(snd (resolveSpec env frag st))\<lparr>effects := effects st\<rparr> = st"
  by (simp add: resolveSpec_def Let_def resolve_referenced_rest
      split: option.splits FragmentRef.splits)

lemma resolveSpec_effects:
  "effects (snd (resolveSpec env frag st)) = effects st @ new_effects st (snd (resolveSpec env frag st))
   \<and> list_all resolve_effect (new_effects st (snd (resolveSpec env frag st)))"
  using resolve_referenced_effects
  by (simp add: resolveSpec_def Let_def new_effects_def
      split: option.splits FragmentRef.splits)

lemma resolve_effect_quiet: "resolve_effect e \<Longrightarrow> \<not> is_dispatch e \<and> \<not> is_write e"
  by (cases e) simp_all

lemma resolveSpec_shape:
  obtains es where "snd (resolveSpec env frag st) = st\<lparr>effects := effects st @ es\<rparr>"
    and "list_all (\<lambda>e. \<not> is_dispatch e) es" and "list_all (\<lambda>e. \<not> is_write e) es"
proof -
  let ?st' = "snd (resolveSpec env frag st)"
  let ?es = "new_effects st ?st'"
  have "?st' = (?st'\<lparr>effects := effects st\<rparr>)\<lparr>effects := effects ?st'\<rparr>" by simp
  also have "\<dots> = st\<lparr>effects := effects st @ ?es\<rparr>"
    using resolveSpec_rest [where env = env and frag = frag and st = st]
      resolveSpec_effects [where env = env and frag = frag and st = st] by simp
  finally have a: "?st' = st\<lparr>effects := effects st @ ?es\<rparr>" .
  have "list_all resolve_effect ?es" using resolveSpec_effects by blast
  then have "list_all (\<lambda>e. \<not> is_dispatch e) ?es" "list_all (\<lambda>e. \<not> is_write e) ?es"
    using resolve_effect_quiet by (auto simp: list_all_iff)
  with a show ?thesis using that by blast
qed

lemma pickTemplate_shape:
  obtains es where "snd (pickTemplate env fragment flt st) = st\<lparr>effects := effects st @ es\<rparr>"
    and "list_all (\<lambda>e. \<not> is_dispatch e) es"
proof -
  let ?items = "templatesToQuickPickItems
      (filter (case flt of None \<Rightarrow> (\<lambda>p. True) | Some f \<Rightarrow> f) (applicableTemplates env fragment))"
  let ?show = "ShowQuickPickTemplates ?items (''Pick a GPTool to apply to '' @ title fragment)"
  have "snd (pickTemplate env fragment flt st) = st\<lparr>effects := effects st @ [?show]\<rparr>
      \<or> snd (pickTemplate env fragment flt st)
          = st\<lparr>effects := effects st @ [?show, ExecuteCommand ''coarch.prompt.create'']\<rparr>
      \<or> snd (pickTemplate env fragment flt st)
          = st\<lparr>effects := effects st
                @ [?show, OpenExternal ''https://github.com/microsoft/gptools/discussions'']\<rparr>"
    by (simp add: pickTemplate_def Let_def log_def split: option.splits)
  then show ?thesis using that [of "[?show]"] that [of "[?show, ExecuteCommand ''coarch.prompt.create'']"]
      that [of "[?show, OpenExternal ''https://github.com/microsoft/gptools/discussions'']"]
    by auto
qed

lemma fragmentExecute_shape:
  obtains options where
    "fragmentExecute (Some f) label tid st
       = st\<lparr>controller := Running options, effects := effects st @ [CancelAiRequest, RequestAI options]\<rparr>"
  by (simp add: fragmentExecute_def Let_def cancelAiRequest_def requestAI_def log_def)

lemma two_le_length: "2 \<le> length es \<Longrightarrow> es \<noteq> [] \<and> butlast es \<noteq> []"
  by (cases es rule: rev_cases) auto

lemma ctd_quiet: "list_all (\<lambda>e. \<not> is_dispatch e) es \<Longrightarrow> cancel_then_dispatch es"
  by (simp add: cancel_then_dispatch_def)

lemma ctd_dispatch:
  "list_all (\<lambda>e. \<not> is_dispatch e) qs \<Longrightarrow> cancel_then_dispatch (qs @ [CancelAiRequest, RequestAI options])"
  by (simp add: cancel_then_dispatch_def butlast_append)

lemma ctd_prepend:
  assumes "list_all (\<lambda>e. \<not> is_dispatch e) qs" and "cancel_then_dispatch es"
  shows "cancel_then_dispatch (qs @ es)"
proof (cases "list_all (\<lambda>e. \<not> is_dispatch e) es")
  case True
  with assms(1) show ?thesis by (simp add: cancel_then_dispatch_def)
next
  case False
  with assms(2) have e: "2 \<le> length es" "list_all (\<lambda>e. \<not> is_dispatch e) (butlast es)"
    "is_dispatch (last es)" "last (butlast es) = CancelAiRequest"
    by (auto simp: cancel_then_dispatch_def)
  then have ne: "es \<noteq> []" "butlast es \<noteq> []" using two_le_length by blast+
  with assms(1) e show ?thesis
    by (simp add: cancel_then_dispatch_def butlast_append)
qed

lemma never_two_le: "never_two n es \<Longrightarrow> n \<le> 1"
  by (cases es) simp_all

lemma never_two_append:
  "never_two n (xs @ ys) = (never_two n xs \<and> never_two (foldl in_flight_step n xs) ys)"
  by (induction xs arbitrary: n) (auto dest: never_two_le)

lemma quiet_step: "\<not> is_dispatch e \<Longrightarrow> in_flight_step n e \<le> n"
  by (cases e) simp_all

lemma never_two_quiet:
  "list_all (\<lambda>e. \<not> is_dispatch e) es \<Longrightarrow> n \<le> 1 \<Longrightarrow>
   never_two n es \<and> foldl in_flight_step n es \<le> 1"
proof (induction es arbitrary: n)
  case Nil
  then show ?case by simp
next
  case (Cons e es)
  then have "in_flight_step n e \<le> 1" using quiet_step [of e n] by simp
  with Cons show ?case by simp
qed

lemma ctd_never_two:
  assumes "cancel_then_dispatch es" and "n \<le> 1"
  shows "never_two n es"
proof (cases "list_all (\<lambda>e. \<not> is_dispatch e) es")
  case True
  with assms(2) show ?thesis using never_two_quiet by blast
next
  case False
  with assms(1) have e: "2 \<le> length es" "list_all (\<lambda>e. \<not> is_dispatch e) (butlast es)"
    "is_dispatch (last es)" "last (butlast es) = CancelAiRequest"
    by (auto simp: cancel_then_dispatch_def)
  then have ne: "es \<noteq> []" "butlast es \<noteq> []" using two_le_length by blast+
  obtain options where l: "last es = RequestAI options"
    using e(3) by (cases "last es") simp_all
  have es: "es = butlast (butlast es) @ [CancelAiRequest, RequestAI options]"
    using ne e(4) l by (metis append_butlast_last_id append_Cons append_Nil append_assoc)
  have q: "list_all (\<lambda>e. \<not> is_dispatch e) (butlast (butlast es))"
    using e(2) by (auto simp: list_all_iff dest: in_set_butlastD)
  have "never_two n (butlast (butlast es) @ [CancelAiRequest, RequestAI options])"
    using never_two_quiet [OF q assms(2)] by (simp add: never_two_append)
  with es show ?thesis by simp
qed

lemma in_flight_le: "in_flight c \<le> 1"
  by (simp add: in_flight_def split: RequestState.splits)

lemma new_effects_append [simp]: "new_effects st (st'\<lparr>effects := effects st @ es\<rparr>) = es"
  by (simp add: new_effects_def)

lemma checkSaved_dirty:
  "list_ex isDirty (textDocuments st) \<Longrightarrow>
   checkSaved env st = (False, st\<lparr>effects := effects st
      @ [ShowErrorMessage ''GPTool cancelled. Please save all files before running GPTools.'']\<rparr>)"
  by (simp add: checkSaved_def log_def)

lemma checkSaved_clean:
  "\<not> list_ex isDirty (textDocuments st) \<Longrightarrow>
   checkSaved env st = (True, st\<lparr>project := parseWorkspace env (files st),
                                  effects := effects st @ [ParseWorkspace]\<rparr>)"
  by (simp add: checkSaved_def log_def)

section \<open>Unsaved documents block the prompt command\<close>

text \<open>
  Claim C5. When an open text document is unsaved at the start of the prompt command, the
  command shows the message that asks to save all files and does nothing else: no
  cancellation, no parse, no resolution, no picker and no request. The state is the one it
  started in, with the message added to the log.
\<close>

theorem fragmentPrompt_blocked_when_dirty:
  assumes "\<exists>d\<in>set (textDocuments st). isDirty d"
  shows "fragmentPrompt env frag template st
           = st\<lparr>effects := effects st
               @ [ShowErrorMessage ''GPTool cancelled. Please save all files before running GPTools.'']\<rparr>"
proof -
  from assms have "list_ex isDirty (textDocuments st)" by (simp add: list_ex_iff)
  then show ?thesis by (simp add: fragmentPrompt_def checkSaved_dirty)
qed

theorem fragmentPrompt_blocked_when_dirty_witness:
  "fragmentPrompt (envA None None) (Some (Ref (Frag rootA))) (Some tmpl1)
     (stA (Completed reqA) [\<lparr>fsPath = ''util.ts'', text_of = ''let x'', isDirty = True\<rparr>])
   = (stA (Completed reqA) [\<lparr>fsPath = ''util.ts'', text_of = ''let x'', isDirty = True\<rparr>])
       \<lparr>effects := [ShowErrorMessage ''GPTool cancelled. Please save all files before running GPTools.'']\<rparr>"
  using fragmentPrompt_blocked_when_dirty [of "stA (Completed reqA) [\<lparr>fsPath = ''util.ts'', text_of = ''let x'', isDirty = True\<rparr>]"
      "envA None None" "Some (Ref (Frag rootA))" "Some tmpl1"]
  by (simp add: stA_def)

section \<open>Resolution of a loose identifier\<close>

lemma rootFragment_parent: "parent (rootFragment f) = None"
  by (induction f rule: rootFragment.induct) simp_all

lemma rootFragment_opt_parent: "rootFragment_opt fo = Some f \<Longrightarrow> parent f = None"
  using rootFragment_parent by (auto simp: rootFragment_opt_def)

lemma resolve_referenced_root:
  "resolve_referenced env s st = (Ok (Some f), st') \<Longrightarrow> parent f = None"
  by (auto simp: resolve_referenced_def Let_def
      split: option.splits Result.splits if_splits
      dest: rootFragment_opt_parent)

text \<open>
  Claim C9. Whenever the resolution of a loose identifier (a fragment, an id or path string,
  a URI, or nothing) succeeds, the fragment it returns has no parent: the walk to the root
  is applied on every path that returns a fragment.
\<close>

theorem resolveSpec_returns_root: "resolveSpec env frag st = (Ok (Some f), st') \<Longrightarrow> parent f = None"
  by (auto simp: resolveSpec_def Let_def 
      split: option.splits FragmentRef.splits if_splits
      dest: rootFragment_opt_parent resolve_referenced_root)

text \<open>The sub-fragment of the example resolves to its root.\<close>

theorem resolveSpec_returns_root_witness:
  "resolveSpec (envA None None) (Some (Ref (Frag childA))) (stA Idle []) = (Ok (Some rootA), stA Idle [])
   \<and> parent childA = Some rootA \<and> parent rootA = None"
proof -
  have r: "resolveSpec (envA None None) (Some (Ref (Frag childA))) (stA Idle []) = (Ok (Some rootA), stA Idle [])"
    by (simp add: resolveSpec_def next_logic_def aiRequest_def stA_def projA_def childA_def rootA_def
        rootFragment_opt_def)
  show ?thesis using r resolveSpec_returns_root [OF r] by (simp add: childA_def)
qed

text \<open>
  Claim C8. With no identifier and no request on record, the resolution returns no fragment
  and leaves the state as it is; the prompt command then creates no request and dispatches
  nothing, and when no document is unsaved its steps are the parse, the cancellation and the
  error message that the place to apply the tool was not found.
\<close>

theorem resolveSpec_absent_not_found:
  assumes "aiRequest st = None"
  shows "resolveSpec env None st = (Ok None, st)
    \<and> aiRequest (fragmentPrompt env None template st) = None
    \<and> list_all (\<lambda>e. \<not> is_dispatch e) (new_effects st (fragmentPrompt env None template st))
    \<and> (\<not> list_ex isDirty (textDocuments st) \<longrightarrow>
         new_effects st (fragmentPrompt env None template st)
           = [ParseWorkspace, CancelAiRequest, ShowErrorMessage not_found_message])"
proof -
  have rs: "\<And>s. aiRequest s = None \<Longrightarrow> resolveSpec env None s = (Ok None, s)"
    by (simp add: resolveSpec_def next_logic_def rootFragment_opt_def)
  show ?thesis
  proof (cases "list_ex isDirty (textDocuments st)")
    case True
    then show ?thesis using assms rs
      by (simp add: fragmentPrompt_def checkSaved_dirty aiRequest_def)
  next
    case False
    define st2 where "st2 = cancelAiRequest (st\<lparr>project := parseWorkspace env (files st),
                                  effects := effects st @ [ParseWorkspace]\<rparr>)"
    have a2: "aiRequest st2 = None"
      using assms by (simp add: st2_def cancelAiRequest_def log_def aiRequest_def split: RequestState.splits)
    have "fragmentPrompt env None template st = log (ShowErrorMessage not_found_message) st2"
      using False rs [OF a2] by (simp add: fragmentPrompt_def checkSaved_clean st2_def)
    then show ?thesis using assms rs False a2
      by (simp add: log_def st2_def cancelAiRequest_def aiRequest_def new_effects_def)
  qed
qed

theorem resolveSpec_absent_not_found_witness:
  "aiRequest (stA Idle []) = None
   \<and> resolveSpec (envA None None) None (stA Idle []) = (Ok None, stA Idle [])
   \<and> effects (fragmentPrompt (envA None None) None None (stA Idle []))
      = [ParseWorkspace, CancelAiRequest, ShowErrorMessage not_found_message]"
proof -
  have a: "aiRequest (stA Idle []) = None" by (simp add: aiRequest_def stA_def)
  have d: "\<not> list_ex isDirty (textDocuments (stA Idle []))" by (simp add: stA_def)
  have e: "effects (stA Idle []) = []" by (simp add: stA_def)
  show ?thesis using a d e resolveSpec_absent_not_found [OF a, of "envA None None" None] 
    by (simp add: new_effects_def)
qed

lemma file_pick_items_nth:
  "i < length (referencing p s) \<Longrightarrow>
   pick_at (file_pick_items p s) (Some i)
     = Some \<lparr>pick_label = basename (file_filename (referencing p s ! i)),
             pick_file = Some (referencing p s ! i)\<rparr>"
  by (simp add: pick_at_def file_pick_items_def nth_append)

lemma resolveSpec_path:
  "\<not> is_gpspec s \<Longrightarrow> frag = Some (Ref (Str s)) \<or> frag = Some (Uri s) \<Longrightarrow>
   resolveSpec env frag st = resolve_referenced env s st"
  by (auto simp: resolveSpec_def next_logic_def)

text \<open>
  Claim C2, as the code has it. For a path (string or URI) that is not the path of a
  specification document: whenever at least one file of the project has a root that
  references the path, also when exactly one has, the file picker is shown first, with these
  files followed by the entry to create a new file. Choosing a file resolves to the root of
  that file's first root fragment; dismissing the picker resolves to nothing. Only when no
  file references the path is no file picker shown.
\<close>

theorem resolveSpec_referenced_path_asks:
  assumes "\<not> is_gpspec s" and "frag = Some (Ref (Str s)) \<or> frag = Some (Uri s)"
  shows "(referencing (project st) s \<noteq> [] \<longrightarrow>
            (\<exists>rest. new_effects st (snd (resolveSpec env frag st))
               = ShowQuickPickFiles (file_pick_items (project st) s) ''Select GPSpec file'' # rest))
       \<and> (\<forall>i. i < length (referencing (project st) s)
              \<and> showQuickPick_files env (file_pick_items (project st) s) = Some i \<longrightarrow>
            fst (resolveSpec env frag st)
              = Ok (rootFragment_opt (case roots (referencing (project st) s ! i) of
                                        [] \<Rightarrow> None | r # rs \<Rightarrow> Some r)))
       \<and> (referencing (project st) s \<noteq> []
            \<and> showQuickPick_files env (file_pick_items (project st) s) = None \<longrightarrow>
            fst (resolveSpec env frag st) = Ok None)
       \<and> (referencing (project st) s = [] \<longrightarrow>
            list_all (\<lambda>e. \<not> is_file_picker e) (new_effects st (snd (resolveSpec env frag st))))"
proof -
  let ?items = "file_pick_items (project st) s"
  let ?show = "ShowQuickPickFiles ?items ''Select GPSpec file''"
  have eq: "resolveSpec env frag st = resolve_referenced env s st"
    using assms by (rule resolveSpec_path)
  have a: "\<exists>rest. new_effects st (snd (resolve_referenced env s st)) = ?show # rest"
    if "referencing (project st) s \<noteq> []"
    using that
    by (simp add: resolve_referenced_def Let_def log_def new_effects_def
        split: option.splits Result.splits)
  have b: "fst (resolve_referenced env s st)
              = Ok (rootFragment_opt (case roots (referencing (project st) s ! i) of
                                        [] \<Rightarrow> None | r # rs \<Rightarrow> Some r))"
    if "i < length (referencing (project st) s)" "showQuickPick_files env ?items = Some i" for i
  proof -
    from that(1) have ne: "referencing (project st) s \<noteq> []" by auto
    show ?thesis
      using ne that(2) file_pick_items_nth [OF that(1)]
      by (simp add: resolve_referenced_def Let_def)
  qed
  have c: "fst (resolve_referenced env s st) = Ok None"
    if "referencing (project st) s \<noteq> []" "showQuickPick_files env ?items = None"
    using that by (simp add: resolve_referenced_def Let_def pick_at_def)
  have d: "list_all (\<lambda>e. \<not> is_file_picker e) (new_effects st (snd (resolve_referenced env s st)))"
    if "referencing (project st) s = []"
    using that
    by (simp add: resolve_referenced_def Let_def log_def new_effects_def
        split: option.splits Result.splits)
  show ?thesis unfolding eq using a b c d by blast
qed

lemma eval_referencing: "referencing projA ''util.ts'' = [fileA]"
  by (simp add: referencing_def projA_def fileA_def rootA_def)

lemma eval_not_gpspec: "\<not> is_gpspec ''util.ts''"
  by (simp add: is_gpspec_def)

text \<open>
  One file references \<^verbatim>\<open>util.ts\<close>. The user who picks it gets its root fragment, the user
  who dismisses the picker gets nothing; for \<^verbatim>\<open>main.ts\<close>, which no file references, no
  picker is shown.
\<close>

theorem resolveSpec_referenced_path_asks_witness:
  "\<not> is_gpspec ''util.ts'' \<and> referencing (project (stA Idle [])) ''util.ts'' = [fileA]
   \<and> (\<exists>rest. new_effects (stA Idle []) (snd (resolveSpec (envA (Some 0) None) (Some (Uri ''util.ts'')) (stA Idle [])))
         = ShowQuickPickFiles (file_pick_items (project (stA Idle [])) ''util.ts'') ''Select GPSpec file'' # rest)
   \<and> fst (resolveSpec (envA (Some 0) None) (Some (Uri ''util.ts'')) (stA Idle [])) = Ok (Some rootA)
   \<and> fst (resolveSpec (envA None None) (Some (Uri ''util.ts'')) (stA Idle [])) = Ok None
   \<and> referencing (project (stA Idle [])) ''main.ts'' = []
   \<and> list_all (\<lambda>e. \<not> is_file_picker e)
        (new_effects (stA Idle []) (snd (resolveSpec (envA None None) (Some (Uri ''main.ts'')) (stA Idle []))))"
proof -
  have p: "project (stA Idle []) = projA" by (simp add: stA_def)
  have g: "\<not> is_gpspec ''main.ts''" by (simp add: is_gpspec_def)
  have r: "referencing projA ''main.ts'' = []"
    by (simp add: referencing_def projA_def fileA_def rootA_def)
  have c0: "showQuickPick_files (envA (Some 0) None) (file_pick_items projA ''util.ts'') = Some 0"
    and cn: "showQuickPick_files (envA None None) (file_pick_items projA ''util.ts'') = None"
    by (simp_all add: envA_def)
  have rt: "rootFragment_opt (case roots fileA of [] \<Rightarrow> None | r # rs \<Rightarrow> Some r) = Some rootA"
    by (simp add: fileA_def rootFragment_opt_def) (simp add: rootA_def)
  show ?thesis
    using resolveSpec_referenced_path_asks [OF eval_not_gpspec, of "Some (Uri ''util.ts'')" "stA Idle []" "envA (Some 0) None"]
      resolveSpec_referenced_path_asks [OF eval_not_gpspec, of "Some (Uri ''util.ts'')" "stA Idle []" "envA None None"]
      resolveSpec_referenced_path_asks [OF g, of "Some (Uri ''main.ts'')" "stA Idle []" "envA None None"]
      eval_not_gpspec
    by (simp add: p eval_referencing r c0 cn rt)
qed

text \<open>
  Exactly one file references \<^verbatim>\<open>util.ts\<close>, and still the picker is shown; the user
  dismisses it and the resolution returns nothing, not the first root of that file.
\<close>

theorem resolveSpec_single_reference_counterexample:
  "\<not> is_gpspec ''util.ts'' \<and> referencing projA ''util.ts'' = [fileA] \<and> roots fileA = [rootA]
   \<and> resolveSpec (envA None None) (Some (Ref (Str ''util.ts''))) (stA Idle [])
      = (Ok None,
         log (ShowQuickPickFiles
                [\<lparr>pick_label = ''a.gpspec.md'', pick_file = Some fileA\<rparr>,
                 \<lparr>pick_label = ''Create new GPSpec file...'', pick_file = None\<rparr>]
                ''Select GPSpec file'') (stA Idle []))"
proof -
  have p: "project (stA Idle []) = projA" by (simp add: stA_def)
  have i: "file_pick_items projA ''util.ts'' = [\<lparr>pick_label = ''a.gpspec.md'', pick_file = Some fileA\<rparr>,
                 \<lparr>pick_label = ''Create new GPSpec file...'', pick_file = None\<rparr>]"
    by (simp add: file_pick_items_def eval_referencing basename_def) (simp add: fileA_def)
  have "resolveSpec (envA None None) (Some (Ref (Str ''util.ts''))) (stA Idle [])
      = resolve_referenced (envA None None) ''util.ts'' (stA Idle [])"
    using eval_not_gpspec by (simp add: resolveSpec_path)
  also have "\<dots> = (Ok None, log (ShowQuickPickFiles (file_pick_items projA ''util.ts'') ''Select GPSpec file'') (stA Idle []))"
    by (simp add: resolve_referenced_def Let_def p eval_referencing pick_at_def envA_def)
  finally show ?thesis using i eval_not_gpspec eval_referencing by (simp add: fileA_def)
qed

section \<open>The target of a dispatched request\<close>

text \<open>
  Claim C3, as the code has it. Before the dispatch the fragment is looked up by its full id
  in the project's current mapping. When the id is present the fragment of the mapping is the
  target of the request; when it is absent the fragment that was passed in is the target.
  In both cases the running request is cancelled and the new one dispatched.
\<close>

theorem fragmentExecute_target:
  "\<exists>options. fragmentExecute (Some f) label templateId st
      = st\<lparr>controller := Running options,
           effects := effects st @ [CancelAiRequest, RequestAI options]\<rparr>
    \<and> opt_fragment options
        = (case fragmentByFullId (project st) (fullId f) of None \<Rightarrow> f | Some g \<Rightarrow> g)"
proof -
  let ?g = "case fragmentByFullId (project st) (fullId f) of None \<Rightarrow> f | Some g \<Rightarrow> g"
  let ?o = "\<lparr>opt_fragment = ?g,
             opt_template = getTemplate (project_templates (file_of ?g)) templateId,
             opt_label = label\<rparr>"
  have "fragmentExecute (Some f) label templateId st
      = st\<lparr>controller := Running ?o, effects := effects st @ [CancelAiRequest, RequestAI ?o]\<rparr>"
    by (simp add: fragmentExecute_def Let_def cancelAiRequest_def requestAI_def log_def)
  then show ?thesis by (intro exI [of _ ?o]) simp
qed

text \<open>A fragment whose id the project does not know becomes the target of the request.\<close>

theorem fragmentExecute_stale_handle_counterexample:
  "fragmentByFullId (project (stA Idle [])) (fullId staleF) = None
   \<and> aiRequest (fragmentExecute (Some staleF) ''Generate'' ''gen'' (stA Idle []))
       = Some \<lparr>opt_fragment = staleF, opt_template = Some tmpl1, opt_label = ''Generate''\<rparr>"
  by (simp add: fragmentExecute_def Let_def cancelAiRequest_def requestAI_def log_def aiRequest_def
      stA_def projA_def staleF_def getTemplate_def handleA_def tmpl1_def)

section \<open>Navigation\<close>

text \<open>
  Claim C10. Navigating to an identifier that resolves to no fragment of the project returns
  the state unchanged: no editor is opened, no selection set, nothing revealed.
\<close>

theorem fragmentNavigate_unresolved_noop: "resolveFragment (project st) (Some ident) = None \<Longrightarrow> fragmentNavigate ident st = st"
  by (simp add: fragmentNavigate_def)

theorem fragmentNavigate_unresolved_noop_witness:
  "resolveFragment (project (stA Idle [])) (Some (Str ''b.gpspec.md:4'')) = None
   \<and> fragmentNavigate (Str ''b.gpspec.md:4'') (stA Idle []) = stA Idle []"
proof -
  have r: "resolveFragment (project (stA Idle [])) (Some (Str ''b.gpspec.md:4'')) = None"
    by (simp add: stA_def projA_def is_gpspec_def lower_ascii_def)
  show ?thesis using r fragmentNavigate_unresolved_noop [OF r] by simp
qed

section \<open>The refinement command writes only with a note\<close>

lemma fragmentRefine_no_note:
  assumes "showInputBox env = None \<or> showInputBox env = Some []"
  shows "files (fragmentRefine env st) = files st
         \<and> list_all (\<lambda>e. \<not> is_write e) (new_effects st (fragmentRefine env st))"
proof -
  define st1 where "st1 = cancelAiRequest st"
  have e1: "effects st1 = effects st @ [CancelAiRequest]" and f1: "files st1 = files st"
    by (simp_all add: st1_def cancelAiRequest_def log_def)
  obtain r st2 where r: "resolveSpec env None st1 = (r, st2)" by (cases "resolveSpec env None st1")
  obtain rs where rs: "st2 = st1\<lparr>effects := effects st1 @ rs\<rparr>" "list_all (\<lambda>e. \<not> is_write e) rs"
    using resolveSpec_shape [of env None st1] r by (metis snd_conv)
  have e2: "effects st2 = effects st @ ([CancelAiRequest] @ rs)" and f2: "files st2 = files st"
    using rs(1) e1 f1 by simp_all
  have unf: "fragmentRefine env st =
      (case r of Throw e \<Rightarrow> log (Uncaught e) st2
       | Ok None \<Rightarrow> st2
       | Ok (Some f) \<Rightarrow>
           (case aiRequest st2 of None \<Rightarrow> log (Uncaught TypeError) st2
            | Some req \<Rightarrow> log (ShowInputBox ''What do you want to add to your spec?'') st2))"
    using assms r
    by (auto simp: fragmentRefine_def Let_def st1_def split: Result.splits option.splits)
  have "files (fragmentRefine env st) = files st"
    using f2 by (simp add: unf log_def split: Result.splits option.splits)
  moreover have "effects (fragmentRefine env st) = effects st2
      \<or> (\<exists>e. \<not> is_write e \<and> effects (fragmentRefine env st) = effects st2 @ [e])"
    by (simp add: unf log_def split: Result.splits option.splits)
  then have "list_all (\<lambda>e. \<not> is_write e) (new_effects st (fragmentRefine env st))"
    using e2 rs(2) by (auto simp: new_effects_def)
  ultimately show ?thesis by simp
qed

text \<open>
  Claim C7, as the code has it. The refinement command saves or writes a document only when
  the input box returned a note that is not empty: a dismissed box and the empty string are
  rejected before the insertion. A note of white space only is not rejected.
\<close>

theorem fragmentRefine_writes_only_with_note:
  assumes "\<not> list_all (\<lambda>e. \<not> is_write e) (new_effects st (fragmentRefine env st))
           \<or> files (fragmentRefine env st) \<noteq> files st"
  shows "\<exists>note. showInputBox env = Some note \<and> note \<noteq> []"
proof (rule ccontr)
  assume "\<not> (\<exists>note. showInputBox env = Some note \<and> note \<noteq> [])"
  then have "showInputBox env = None \<or> showInputBox env = Some []"
    by (cases "showInputBox env") auto
  then show False using fragmentRefine_no_note [of env st] assms by blast
qed

theorem fragmentRefine_writes_only_with_note_witness:
  "\<not> list_all (\<lambda>e. \<not> is_write e)
       (new_effects (stA (Completed reqA) [])
          (fragmentRefine (envA None (Some ''do X'')) (stA (Completed reqA) [])))
   \<and> (\<exists>txt. showInputBox (envA None (Some ''do X'')) = Some txt \<and> txt \<noteq> [])"
proof -
  let ?run = "fragmentRefine (envA None (Some ''do X'')) (stA (Completed reqA) [])"
  have e: "take 5 (effects ?run)
      = [CancelAiRequest, ShowInputBox ''What do you want to add to your spec?'',
         SaveAllTextDocuments, ReadFile ''a.gpspec.md'',
         WriteFile ''a.gpspec.md''
           (join_lf [''l0'', ''l1'', ''l2'', ''-   do X'', ''l3'', ''l4''])]"
    by (simp add: fragmentRefine_def Let_def cancelAiRequest_def log_def resolveSpec_def next_logic_def
      aiRequest_def stA_def reqA_def rootA_def is_gpspec_def lower_ascii_def projA_def fileA_def
      rootFragment_opt_def envA_def saveAllTextDocuments_def handleA_def doc5_def refineContent_def
      splice_insert_def basename_def fragmentPrompt_def checkSaved_def fragmentExecute_def requestAI_def)
  have "\<not> list_all (\<lambda>e. \<not> is_write e) (take 5 (effects ?run))"
    by (simp add: e)
  then have "\<not> list_all (\<lambda>e. \<not> is_write e) (effects ?run)"
    by (metis append_take_drop_id list_all_append)
  then have h: "\<not> list_all (\<lambda>e. \<not> is_write e) (new_effects (stA (Completed reqA) []) ?run)"
    by (simp add: new_effects_def stA_def)
  then have "\<not> list_all (\<lambda>e. \<not> is_write e) (new_effects (stA (Completed reqA) []) ?run)
      \<or> files ?run \<noteq> files (stA (Completed reqA) [])"
    by simp
  from fragmentRefine_writes_only_with_note [OF this] h show ?thesis by simp
qed

text \<open>A note of two spaces reaches the insertion: the file is written with the line
  of a dash and five spaces.\<close>

theorem fragmentRefine_whitespace_note_counterexample:
  "showInputBox (envA None (Some ''  '')) = Some ''  ''
   \<and> take 5 (effects (fragmentRefine (envA None (Some ''  '')) (stA (Completed reqA) [])))
      = [CancelAiRequest, ShowInputBox ''What do you want to add to your spec?'',
         SaveAllTextDocuments, ReadFile ''a.gpspec.md'',
         WriteFile ''a.gpspec.md''
           (join_lf [''l0'', ''l1'', ''l2'', ''-     '', ''l3'', ''l4''])]"
  by (simp add: fragmentRefine_def Let_def cancelAiRequest_def log_def resolveSpec_def next_logic_def
      aiRequest_def stA_def reqA_def rootA_def is_gpspec_def lower_ascii_def projA_def fileA_def
      rootFragment_opt_def envA_def saveAllTextDocuments_def handleA_def doc5_def refineContent_def
      splice_insert_def basename_def fragmentPrompt_def checkSaved_def fragmentExecute_def requestAI_def)

section \<open>A dispatch directly follows a cancellation\<close>

lemma fragmentPrompt_effects:
  obtains es where "effects (fragmentPrompt env frag template st) = effects st @ es"
    and "cancel_then_dispatch es"
proof (cases "list_ex isDirty (textDocuments st)")
  case True
  then have "effects (fragmentPrompt env frag template st) = effects st
      @ [ShowErrorMessage ''GPTool cancelled. Please save all files before running GPTools.'']"
    by (simp add: fragmentPrompt_def checkSaved_dirty)
  then show ?thesis using that by (simp add: cancel_then_dispatch_def)
next
  case False
  define st2 where "st2 = cancelAiRequest (st\<lparr>project := parseWorkspace env (files st),
                                  effects := effects st @ [ParseWorkspace]\<rparr>)"
  have e2: "effects st2 = effects st @ [ParseWorkspace, CancelAiRequest]"
    by (simp add: st2_def cancelAiRequest_def log_def)
  obtain r st3 where r: "resolveSpec env frag st2 = (r, st3)" by (cases "resolveSpec env frag st2")
  obtain rs where rs: "st3 = st2\<lparr>effects := effects st2 @ rs\<rparr>" "list_all (\<lambda>e. \<not> is_dispatch e) rs"
    using resolveSpec_shape [of env frag st2] r by (metis snd_conv)
  have e3: "effects st3 = effects st @ ([ParseWorkspace, CancelAiRequest] @ rs)"
    using rs(1) e2 by simp
  have q3: "list_all (\<lambda>e. \<not> is_dispatch e) ([ParseWorkspace, CancelAiRequest] @ rs)"
    using rs(2) by simp
  have unf: "fragmentPrompt env frag template st =
     (case r of Throw e \<Rightarrow> log (Uncaught e) st3
      | Ok None \<Rightarrow> log (ShowErrorMessage not_found_message) st3
      | Ok (Some fragment) \<Rightarrow>
                  (case template of
                     Some t \<Rightarrow> fragmentExecute (Some fragment) (t_title t) (t_id t) st3
                   | None \<Rightarrow>
                       (case pickTemplate env fragment None st3 of
                          (None, st4) \<Rightarrow> st4
                        | (Some t, st4) \<Rightarrow>
                            fragmentExecute (Some fragment) (t_title t) (t_id t) st4)))"
    using False r by (simp add: fragmentPrompt_def checkSaved_clean st2_def Let_def split: Result.splits option.splits)
  show ?thesis
  proof (cases r)
    case (Throw e)
    then have "effects (fragmentPrompt env frag template st)
        = effects st @ (([ParseWorkspace, CancelAiRequest] @ rs) @ [Uncaught e])"
      using unf e3 by (simp add: log_def)
    moreover have "cancel_then_dispatch (([ParseWorkspace, CancelAiRequest] @ rs) @ [Uncaught e])"
      using q3 by (intro ctd_quiet) simp
    ultimately show ?thesis using that by blast
  next
    case (Ok fo)
    show ?thesis
    proof (cases fo)
      case None
      then have "effects (fragmentPrompt env frag template st)
        = effects st @ (([ParseWorkspace, CancelAiRequest] @ rs) @ [ShowErrorMessage not_found_message])"
        using unf e3 Ok by (simp add: log_def)
      moreover have "cancel_then_dispatch (([ParseWorkspace, CancelAiRequest] @ rs) @ [ShowErrorMessage not_found_message])"
        using q3 by (intro ctd_quiet) simp
      ultimately show ?thesis using that by blast
    next
      case (Some fragment)
      show ?thesis
      proof (cases template)
        case t: (Some t)
        obtain options where "fragmentExecute (Some fragment) (t_title t) (t_id t) st3
          = st3\<lparr>controller := Running options, effects := effects st3 @ [CancelAiRequest, RequestAI options]\<rparr>"
          using fragmentExecute_shape by blast
        then have "effects (fragmentPrompt env frag template st)
          = effects st @ (([ParseWorkspace, CancelAiRequest] @ rs) @ [CancelAiRequest, RequestAI options])"
          using unf e3 Ok Some t by simp
        moreover have "cancel_then_dispatch (([ParseWorkspace, CancelAiRequest] @ rs) @ [CancelAiRequest, RequestAI options])"
          using q3 by (rule ctd_dispatch)
        ultimately show ?thesis using that by blast
      next
        case None
        obtain p st4 where p: "pickTemplate env fragment None st3 = (p, st4)"
          by (cases "pickTemplate env fragment None st3")
        obtain ps where ps: "st4 = st3\<lparr>effects := effects st3 @ ps\<rparr>" "list_all (\<lambda>e. \<not> is_dispatch e) ps"
          using pickTemplate_shape [of env fragment None st3] p by (metis snd_conv)
        have e4: "effects st4 = effects st @ ([ParseWorkspace, CancelAiRequest] @ rs @ ps)"
          using ps(1) e3 by simp
        have q4: "list_all (\<lambda>e. \<not> is_dispatch e) ([ParseWorkspace, CancelAiRequest] @ rs @ ps)"
          using rs(2) ps(2) by simp
        show ?thesis
        proof (cases p)
          case pn: None
          then have "fragmentPrompt env frag template st = st4"
            using unf Ok Some None p by simp
          with e4 q4 show ?thesis using that ctd_quiet by blast
        next
          case pt: (Some t)
          obtain options where "fragmentExecute (Some fragment) (t_title t) (t_id t) st4
            = st4\<lparr>controller := Running options, effects := effects st4 @ [CancelAiRequest, RequestAI options]\<rparr>"
            using fragmentExecute_shape by blast
          then have "effects (fragmentPrompt env frag template st)
            = effects st @ (([ParseWorkspace, CancelAiRequest] @ rs @ ps) @ [CancelAiRequest, RequestAI options])"
            using unf e4 Ok Some None p pt by simp
          moreover have "cancel_then_dispatch (([ParseWorkspace, CancelAiRequest] @ rs @ ps) @ [CancelAiRequest, RequestAI options])"
            using q4 by (rule ctd_dispatch)
          ultimately show ?thesis using that by blast
        qed
      qed
    qed
  qed
qed

lemma fragmentRefine_effects:
  obtains es where "effects (fragmentRefine env st) = effects st @ es"
    and "cancel_then_dispatch es"
proof -
  define st1 where "st1 = cancelAiRequest st"
  have e1: "effects st1 = effects st @ [CancelAiRequest]"
    by (simp_all add: st1_def cancelAiRequest_def log_def)
  obtain r st2 where r: "resolveSpec env None st1 = (r, st2)" by (cases "resolveSpec env None st1")
  obtain rs where rs: "st2 = st1\<lparr>effects := effects st1 @ rs\<rparr>" "list_all (\<lambda>e. \<not> is_dispatch e) rs"
    using resolveSpec_shape [of env None st1] r by (metis snd_conv)
  have e2: "effects st2 = effects st @ ([CancelAiRequest] @ rs)"
    using rs(1) e1 by simp_all
  have q2: "list_all (\<lambda>e. \<not> is_dispatch e) ([CancelAiRequest] @ rs)"
    using rs(2) by simp
  have low: "\<And>qs st'. effects st' = effects st2 @ qs \<Longrightarrow> list_all (\<lambda>e. \<not> is_dispatch e) qs \<Longrightarrow>
     effects st' = effects st @ (([CancelAiRequest] @ rs) @ qs)
     \<and> list_all (\<lambda>e. \<not> is_dispatch e) (([CancelAiRequest] @ rs) @ qs)"
    using e2 q2 by simp
  have quiet: "\<And>qs. effects (fragmentRefine env st) = effects st2 @ qs \<Longrightarrow>
     list_all (\<lambda>e. \<not> is_dispatch e) qs \<Longrightarrow> thesis"
    using low that ctd_quiet by blast
  show ?thesis
  proof (cases r)
    case (Throw e)
    then have "effects (fragmentRefine env st) = effects st2 @ [Uncaught e]"
      using r by (simp add: fragmentRefine_def Let_def st1_def log_def)
    then show ?thesis by (rule quiet) simp
  next
    case (Ok fo)
    show ?thesis
    proof (cases fo)
      case None
      then have "effects (fragmentRefine env st) = effects st2 @ []"
        using r Ok by (simp add: fragmentRefine_def Let_def st1_def)
      then show ?thesis by (rule quiet) simp
    next
      case (Some fragment)
      show ?thesis
      proof (cases "aiRequest st2")
        case None
        then have "effects (fragmentRefine env st) = effects st2 @ [Uncaught TypeError]"
          using r Ok Some by (simp add: fragmentRefine_def Let_def st1_def log_def)
        then show ?thesis by (rule quiet) simp
      next
        case req: (Some req)
        show ?thesis
        proof (cases "showInputBox env = None \<or> showInputBox env = Some []")
          case True
          then have "effects (fragmentRefine env st)
              = effects st2 @ [ShowInputBox ''What do you want to add to your spec?'']"
            using r Ok Some req by (auto simp: fragmentRefine_def Let_def st1_def log_def)
          then show ?thesis by (rule quiet) simp
        next
          case False
          then obtain refinement where refinement: "showInputBox env = Some refinement" "refinement \<noteq> []"
            by (cases "showInputBox env") auto
          define st4 where "st4 = saveAllTextDocuments (log (ShowInputBox ''What do you want to add to your spec?'') st2)"
          define uri where "uri = filename (file_of fragment)"
          show ?thesis
          proof (cases "files st4 uri")
            case None
            then have "fragmentRefine env st = log (Uncaught FileNotFound) (log (ReadFile uri) st4)"
              using r Ok Some req refinement by (simp add: fragmentRefine_def Let_def st1_def st4_def uri_def)
            then have "effects (fragmentRefine env st)
              = effects st2 @ [ShowInputBox ''What do you want to add to your spec?'',
                  SaveAllTextDocuments, ReadFile uri, Uncaught FileNotFound]"
              by (simp add: st4_def saveAllTextDocuments_def log_def)
            then show ?thesis by (rule quiet) simp
          next
            case content: (Some content)
            define content' where "content' = refineContent content fragment refinement"
            define st8 where "st8 = log (ShowInformationMessage
                                                    (''GPTools - Added refinement in '' @ basename uri
                                                       @ ''. Please wait for the tool to start again.''))
                (saveAllTextDocuments (log (WriteFile uri content')
                                                ((log (ReadFile uri) st4)\<lparr>files := (files (log (ReadFile uri) st4))(uri \<mapsto> content')\<rparr>)))"
            define qs where "qs = [ShowInputBox ''What do you want to add to your spec?'',
                SaveAllTextDocuments, ReadFile uri, WriteFile uri content', SaveAllTextDocuments,
                ShowInformationMessage
                                                    (''GPTools - Added refinement in '' @ basename uri
                                                       @ ''. Please wait for the tool to start again.'')]"
            have fr: "fragmentRefine env st = fragmentPrompt env (Some (Ref (Frag fragment))) (opt_template req) st8"
              using r Ok Some req refinement content
              by (simp add: fragmentRefine_def Let_def st1_def st4_def st8_def uri_def content'_def)
            have e8: "effects st8 = effects st2 @ qs"
              by (simp add: st8_def st4_def qs_def saveAllTextDocuments_def log_def)
            have q8: "list_all (\<lambda>e. \<not> is_dispatch e) qs" by (simp add: qs_def)
            obtain es where es: "effects (fragmentPrompt env (Some (Ref (Frag fragment))) (opt_template req) st8) = effects st8 @ es"
              "cancel_then_dispatch es"
              using fragmentPrompt_effects by blast
            have "effects (fragmentRefine env st) = effects st @ ((([CancelAiRequest] @ rs) @ qs) @ es)"
              using fr es(1) e8 e2 by simp
            moreover have "cancel_then_dispatch ((([CancelAiRequest] @ rs) @ qs) @ es)"
              using q2 q8 es(2) by (intro ctd_prepend) simp_all
            ultimately show ?thesis using that by blast
          qed
        qed
      qed
    qed
  qed
qed

text \<open>
  Claim C1. The prompt command and the refinement command dispatch a request at most once,
  as their last step, directly after a cancellation has completed. Replaying what either
  command adds to the log, from a controller with or without a running request, at no point
  are two requests in flight.
\<close>

theorem flows_cancel_before_dispatch:
  "cancel_then_dispatch (new_effects st (fragmentPrompt env frag template st))
   \<and> never_two (in_flight (controller st)) (new_effects st (fragmentPrompt env frag template st))
   \<and> cancel_then_dispatch (new_effects st (fragmentRefine env st))
   \<and> never_two (in_flight (controller st)) (new_effects st (fragmentRefine env st))"
proof -
  obtain es where es: "effects (fragmentPrompt env frag template st) = effects st @ es" "cancel_then_dispatch es"
    using fragmentPrompt_effects by blast
  obtain es' where es': "effects (fragmentRefine env st) = effects st @ es'" "cancel_then_dispatch es'"
    using fragmentRefine_effects by blast
  have "new_effects st (fragmentPrompt env frag template st) = es"
    and "new_effects st (fragmentRefine env st) = es'"
    using es(1) es'(1) by (simp_all add: new_effects_def)
  then show ?thesis
    using es(2) es'(2) ctd_never_two in_flight_le by simp
qed

text \<open>A request is running; the prompt command cancels it before it dispatches the
  new one.\<close>

theorem flows_cancel_before_dispatch_witness:
  "in_flight (controller (stA (Running reqA) [])) = 1
   \<and> new_effects (stA (Running reqA) [])
        (fragmentPrompt (envA None None) (Some (Ref (Frag childA))) (Some tmpl1) (stA (Running reqA) []))
      = [ParseWorkspace, CancelAiRequest, CancelAiRequest, RequestAI reqA]
   \<and> never_two 1 [ParseWorkspace, CancelAiRequest, CancelAiRequest, RequestAI reqA]"
proof -
  let ?st = "stA (Running reqA) []"
  let ?run = "fragmentPrompt (envA None None) (Some (Ref (Frag childA))) (Some tmpl1) ?st"
  have i: "in_flight (controller ?st) = 1" by (simp add: in_flight_def stA_def)
  have e: "new_effects ?st ?run = [ParseWorkspace, CancelAiRequest, CancelAiRequest, RequestAI reqA]"
    by (simp add: new_effects_def Let_def cancelAiRequest_def log_def resolveSpec_def next_logic_def
      aiRequest_def stA_def reqA_def rootA_def childA_def projA_def fileA_def
      rootFragment_opt_def envA_def handleA_def tmpl1_def getTemplate_def
      fragmentPrompt_def checkSaved_def fragmentExecute_def requestAI_def)
  show ?thesis
    using flows_cancel_before_dispatch [of ?st "envA None None" "Some (Ref (Frag childA))" "Some tmpl1"] i e by simp
qed

end
